theory Spec2Isabelle
  imports Complex_Main
begin

section \<open>Dense matrices\<close>

text \<open>
  The layers and distributions of the library work on Armadillo matrices of floating-point
  elements, stored column by column: element \<open>(i, j)\<close> of a matrix with \<open>n_rows\<close> rows
  is at linear index \<open>i + j * n_rows\<close>. The element type is idealised as \<^typ>\<open>real\<close>:
  sums and products are exact, so no statement below depends on the order in which the
  linear-algebra library accumulates a dot product.
\<close>

record Mat =
  n_rows :: nat
  n_cols :: nat
  mem :: "real list"

text \<open>\<open>size_t\<close> and Armadillo's \<open>uword\<close> are 64 bits wide and unsigned.\<close>

definition uword :: "nat \<Rightarrow> nat" where
  "uword n = n mod 2 ^ 64"

definition usub :: "nat \<Rightarrow> nat \<Rightarrow> nat" where
  "usub a b = (if b \<le> a then a - b else a + 2 ^ 64 - b)"

definition n_elem :: "Mat \<Rightarrow> nat" where
  "n_elem A = uword (n_rows A * n_cols A)"

definition el :: "Mat \<Rightarrow> nat \<Rightarrow> nat \<Rightarrow> real" where
  "el A i j = mem A ! (i + j * n_rows A)"

text \<open>
  Armadillo checks the shapes of its operands and throws \<open>std::logic_error\<close> when they do
  not fit.
\<close>

text \<open>
  Modelled from the spec: \<open>Log::Fatal\<close> is not part of the excerpt. Section 7 of the
  specification makes a fatal error one that is reported immediately, with no partial
  execution: the text streamed into \<open>Log::Fatal\<close> is the report, and the function that
  streams it does not continue. The report is kept as the sequence of its insertions.
\<close>

datatype msg_part = Str string | Num nat

datatype error = LogicError string | Fatal "msg_part list"

text \<open>\<open>A * B\<close>\<close>

definition op_mul :: "Mat \<Rightarrow> Mat \<Rightarrow> error + Mat" where
  "op_mul A B =
     (if n_cols A \<noteq> n_rows B
      then Inl (LogicError ''matrix multiplication: incompatible matrix dimensions'')
      else Inr \<lparr>n_rows = n_rows A, n_cols = n_cols B,
                mem = map (\<lambda>p. \<Sum>k\<leftarrow>[0..<n_cols A].
                                 el A (p mod n_rows A) k * el B k (p div n_rows A))
                          [0..<n_rows A * n_cols B]\<rparr>)"

text \<open>\<open>A.t()\<close>\<close>

definition op_t :: "Mat \<Rightarrow> Mat" where
  "op_t A = \<lparr>n_rows = n_cols A, n_cols = n_rows A,
             mem = map (\<lambda>p. el A (p div n_cols A) (p mod n_cols A))
                       [0..<n_cols A * n_rows A]\<rparr>"

text \<open>\<open>A.each_col() += v\<close>\<close>

definition each_col_plus :: "Mat \<Rightarrow> Mat \<Rightarrow> error + Mat" where
  "each_col_plus A v =
     (if n_rows v \<noteq> n_rows A \<or> n_cols v \<noteq> 1
      then Inl (LogicError ''each_col(): incompatible size'')
      else Inr (A\<lparr>mem := map (\<lambda>p. mem A ! p + mem v ! (p mod n_rows A))
                              [0..<n_rows A * n_cols A]\<rparr>))"

text \<open>\<open>arma::vectorise(A)\<close>: the columns of \<open>A\<close> stacked into one column.\<close>

definition vectorise :: "Mat \<Rightarrow> Mat" where
  "vectorise A = \<lparr>n_rows = n_rows A * n_cols A, n_cols = 1, mem = mem A\<rparr>"

text \<open>\<open>arma::sum(A, 1)\<close>: the sum of each row, as a column.\<close>

definition sum_dim1 :: "Mat \<Rightarrow> Mat" where
  "sum_dim1 A = \<lparr>n_rows = n_rows A, n_cols = 1,
                 mem = map (\<lambda>i. \<Sum>j\<leftarrow>[0..<n_cols A]. el A i j) [0..<n_rows A]\<rparr>"

text \<open>\<open>G.submat(r1, c1, r2, c2) = X\<close>\<close>

definition submat_assign :: "Mat \<Rightarrow> nat \<Rightarrow> nat \<Rightarrow> nat \<Rightarrow> nat \<Rightarrow> Mat \<Rightarrow> error + Mat" where
  "submat_assign G r1 c1 r2 c2 X =
     (if r1 > r2 \<or> c1 > c2 \<or> r2 \<ge> n_rows G \<or> c2 \<ge> n_cols G
      then Inl (LogicError ''Mat::submat(): indices out of bounds or incorrectly used'')
      else if n_rows X \<noteq> r2 - r1 + 1 \<or> n_cols X \<noteq> c2 - c1 + 1
      then Inl (LogicError ''copy into submatrix: incompatible matrix dimensions'')
      else Inr (G\<lparr>mem := map (\<lambda>p. let i = p mod n_rows G; j = p div n_rows G
                                   in if r1 \<le> i \<and> i \<le> r2 \<and> c1 \<le> j \<and> j \<le> c2
                                      then el X (i - r1) (j - c1) else mem G ! p)
                              [0..<n_rows G * n_cols G]\<rparr>))"

section \<open>Memory and matrices on auxiliary memory\<close>

text \<open>
  A matrix built with \<open>Mat(ptr, n_rows, n_cols, false, false)\<close> does not own its elements:
  it is a window onto the memory at \<open>ptr\<close>, and assigning such a temporary to a matrix
  moves the window, it copies no element. Memory is a store of elements by address
  (counted in elements); reading such a matrix reads the store as it is at that moment.
\<close>

type_synonym memory = "nat \<Rightarrow> real"

record MatView =
  ptr :: nat
  v_rows :: nat
  v_cols :: nat

definition aux_mat :: "nat \<Rightarrow> nat \<Rightarrow> nat \<Rightarrow> MatView" where
  "aux_mat p r c = \<lparr>ptr = p, v_rows = r, v_cols = c\<rparr>"

definition v_elem :: "MatView \<Rightarrow> nat" where
  "v_elem v = uword (v_rows v * v_cols v)"

definition deref :: "memory \<Rightarrow> MatView \<Rightarrow> Mat" where
  "deref m v = \<lparr>n_rows = v_rows v, n_cols = v_cols v,
                mem = map (\<lambda>k. m (ptr v + k)) [0..<v_rows v * v_cols v]\<rparr>"

section \<open>The Linear layer\<close>

text \<open>
  \<open>methods/ann/layer/linear_impl.hpp\<close>. The regularizer is a template parameter of the
  layer; its \<open>Evaluate(weights, gradient)\<close> reads the parameters and updates the gradient
  in place, and is a field of the layer here.
\<close>

record LinearType =
  inSize :: nat
  outSize :: nat
  weights :: MatView
  weight :: MatView
  bias :: MatView
  regularizer :: "Mat \<Rightarrow> Mat \<Rightarrow> Mat"

definition SetWeights :: "LinearType \<Rightarrow> nat \<Rightarrow> LinearType" where
  "SetWeights L weightsPtr =
     (let L1 = L\<lparr>weights := aux_mat weightsPtr (uword (uword (outSize L * inSize L) + outSize L)) 1\<rparr>;
          L2 = L1\<lparr>weight := aux_mat weightsPtr (outSize L1) (inSize L1)\<rparr>
      in L2\<lparr>bias := aux_mat (weightsPtr + v_elem (weight L2)) (outSize L2) 1\<rparr>)"

definition Forward :: "LinearType \<Rightarrow> memory \<Rightarrow> Mat \<Rightarrow> error + Mat" where
  "Forward L m input =
     (case op_mul (deref m (weight L)) input of
        Inl e \<Rightarrow> Inl e
      | Inr output \<Rightarrow> each_col_plus output (deref m (bias L)))"

definition Backward :: "LinearType \<Rightarrow> memory \<Rightarrow> Mat \<Rightarrow> Mat \<Rightarrow> error + Mat" where
  "Backward L m input gy = op_mul (op_t (deref m (weight L))) gy"

definition Gradient :: "LinearType \<Rightarrow> memory \<Rightarrow> Mat \<Rightarrow> Mat \<Rightarrow> Mat \<Rightarrow> error + Mat" where
  "Gradient L m input err gradient =
     (case op_mul err (op_t input) of
        Inl e \<Rightarrow> Inl e
      | Inr outer \<Rightarrow>
          (case submat_assign gradient 0 0 (usub (v_elem (weight L)) 1) 0 (vectorise outer) of
             Inl e \<Rightarrow> Inl e
           | Inr g1 \<Rightarrow>
               (case submat_assign g1 (v_elem (weight L)) 0 (usub (n_elem g1) 1) 0 (sum_dim1 err) of
                  Inl e \<Rightarrow> Inl e
                | Inr g2 \<Rightarrow> Inr (regularizer L (deref m (weights L)) g2))))"

section \<open>The AdaBoost probability-prediction binding\<close>

text \<open>
  \<open>methods/adaboost/adaboost_predict_proba_main.cpp\<close>. The parameters of a binding are
  kept by name; a parameter that was not passed, or an output that was not yet assigned,
  has no entry. \<open>AdaBoostModel\<close> is not part of the excerpt: the model is a value of
  any type \<open>'m\<close>, and its \<open>Dimensionality()\<close> and \<open>Classify()\<close> are parameters
  of the binding function. The trace records the calls the binding makes on the timers
  and on the model, in order.
\<close>

record 'm Params =
  matrices :: "string \<rightharpoonup> Mat"
  models :: "string \<rightharpoonup> 'm"

datatype event = TimerStart string | TimerStop string | ClassifyCall

record 'm binding_state =
  params :: "'m Params"
  trace :: "event list"

definition empty_mat :: Mat where
  "empty_mat = \<lparr>n_rows = 0, n_cols = 0, mem = []\<rparr>"

text \<open>
  The two \<open>RequireOnlyOnePassed\<close> checks come first and are fatal when the parameter is
  missing; \<open>std::move\<close> leaves an empty matrix behind in \<open>test\<close>. The result is the
  error thrown, if any, and the state the caller is left with.
\<close>

definition BINDING_FUNCTION ::
  "('m \<Rightarrow> nat) \<Rightarrow> ('m \<Rightarrow> Mat \<Rightarrow> nat list \<times> Mat) \<Rightarrow> 'm binding_state
     \<Rightarrow> error option \<times> 'm binding_state" where
  "BINDING_FUNCTION dimensionality classify s =
     (case matrices (params s) ''test'' of
        None \<Rightarrow> (Some (Fatal [Str ''test'']), s)
      | Some test \<Rightarrow>
          (case models (params s) ''input_model'' of
             None \<Rightarrow> (Some (Fatal [Str ''input_model'']), s)
           | Some m \<Rightarrow>
               (let testingData = test;
                    s1 = s\<lparr>params := (params s)\<lparr>matrices :=
                            (matrices (params s))(''test'' \<mapsto> empty_mat)\<rparr>\<rparr>
                in if n_rows testingData \<noteq> dimensionality m
                   then (Some (Fatal [Str ''Test data dimensionality ('',
                                      Num (n_rows testingData), Str '') '',
                                      Str ''must be the same as the model dimensionality ('',
                                      Num (dimensionality m), Str '')!'']), s1)
                   else
                     (let s2 = s1\<lparr>trace := trace s1 @ [TimerStart ''adaboost_classification'']\<rparr>;
                          (predictedLabels, probabilities) = classify m testingData;
                          s3 = s2\<lparr>trace := trace s2 @ [ClassifyCall]\<rparr>;
                          s4 = s3\<lparr>trace := trace s3 @ [TimerStop ''adaboost_classification'']\<rparr>
                      in (None, s4\<lparr>params := (params s4)\<lparr>matrices :=
                            (matrices (params s4))(''probabilities'' \<mapsto> probabilities)\<rparr>\<rparr>)))))"

section \<open>The discrete distribution\<close>

text \<open>
  Modelled from the spec: the class \<open>DiscreteDistribution\<close> is not part of the excerpt,
  only its tests are. By section 3 of the specification a distribution holds its parameter
  tensors, here one probability vector for each dimension, and they change only through
  \<open>Train\<close> or a call that sets them.
\<close>

record DiscreteDistribution =
  probabilities :: "real list list"

text \<open>
  Modelled from the spec: the constructor from a number of observations. Section 8: a
  distribution built as \<open>d(5)\<close> has 5 equally likely outcomes.
\<close>

definition DiscreteDistribution_num :: "nat \<Rightarrow> DiscreteDistribution" where
  "DiscreteDistribution_num numObservations =
     \<lparr>probabilities = [replicate numObservations (1 / real numObservations)]\<rparr>"

text \<open>
  Modelled from the spec: the constructor from one number of observations for each
  dimension. Section 4.1: the dimensionality and the cardinality of each dimension are
  fixed at construction; \<open>MultiDiscreteDistributionConstructorTest\<close> expects every
  symbol of a dimension to be equally likely.
\<close>

definition DiscreteDistribution_nums :: "nat list \<Rightarrow> DiscreteDistribution" where
  "DiscreteDistribution_nums numObservations =
     \<lparr>probabilities = map (\<lambda>n. replicate n (1 / real n)) numObservations\<rparr>"

text \<open>
  Modelled from the spec: the constructor from explicit parameters (section 3), one
  vector for each dimension. \<open>MultiDiscreteDistributionTrainTest\<close> passes a vector
  \<open>0.3, 0.3, 0.3\<close> and expects the probability \<open>1 / 3\<close> for each of its symbols: the
  constructor divides each vector by its sum. The specification gives no distribution for
  a vector with a negative entry (section 7) or without a positive sum: there the
  constructor has no result.
\<close>

definition valid_probabilities :: "real list \<Rightarrow> bool" where
  "valid_probabilities v \<longleftrightarrow> list_all (\<lambda>x. 0 \<le> x) v \<and> 0 < sum_list v"

definition DiscreteDistribution_probs :: "real list list \<Rightarrow> DiscreteDistribution option" where
  "DiscreteDistribution_probs pro =
     (if list_all valid_probabilities pro
      then Some \<lparr>probabilities = map (\<lambda>v. map (\<lambda>x. x / sum_list v) v) pro\<rparr>
      else None)"

text \<open>Modelled from the spec: \<open>Dimensionality()\<close>, the number of dimensions.\<close>

definition Dimensionality :: "DiscreteDistribution \<Rightarrow> nat" where
  "Dimensionality d = length (probabilities d)"

text \<open>
  Modelled from the spec: the parameter-set call of section 3. The tests write
  \<open>d.Probabilities() = "0.2 0.4 0.1 0.1 0.2"\<close>: the accessor hands out the stored vector
  of a dimension, and the assignment replaces it.
\<close>

definition set_Probabilities :: "DiscreteDistribution \<Rightarrow> nat \<Rightarrow> real list \<Rightarrow> DiscreteDistribution" where
  "set_Probabilities d dimension v = d\<lparr>probabilities := (probabilities d)[dimension := v]\<rparr>"

text \<open>
  Modelled from the spec: \<open>Probability(observation)\<close>. Section 4.1: the probability of a
  vector observation is the product of the per-dimension categorical probabilities. The
  loop over the dimensions multiplies the stored probability of each dimension's symbol;
  an observation that is not in the support has no probability.
\<close>

fun prob_dims :: "real list list \<Rightarrow> nat list \<Rightarrow> real option" where
  "prob_dims [] [] = Some 1"
| "prob_dims (p # ps) (x # xs) =
     (if x < length p then map_option (\<lambda>r. p ! x * r) (prob_dims ps xs) else None)"
| "prob_dims _ _ = None"

definition Probability :: "DiscreteDistribution \<Rightarrow> nat list \<Rightarrow> real option" where
  "Probability d observation = prob_dims (probabilities d) observation"

text \<open>
  The support of a distribution: one symbol below the cardinality of each dimension.
\<close>

definition in_support :: "DiscreteDistribution \<Rightarrow> nat list \<Rightarrow> bool" where
  "in_support d observation \<longleftrightarrow> list_all2 (\<lambda>x p. x < length p) observation (probabilities d)"

section \<open>The multihead attention layer\<close>

text \<open>
  Modelled from the spec: the class \<open>MultiheadAttention\<close> is not part of the excerpt, only
  its test is. Section 4.2 of the specification configures the layer with the target and
  source sequence lengths, the embedding dimension and the number of heads, and gives it
  an optional attention mask and key-padding mask; by section 3 its parameters are the
  projections of query, key and value, the output projection, and their biases.
\<close>

record MultiheadAttention =
  tgtSeqLen :: nat
  srcSeqLen :: nat
  embedDim :: nat
  numHeads :: nat
  attnMask :: Mat
  keyPaddingMask :: Mat
  queryWt :: Mat
  keyWt :: Mat
  valueWt :: Mat
  outWt :: Mat
  qBias :: Mat
  kBias :: Mat
  vBias :: Mat
  outBias :: Mat

text \<open>
  Modelled from the spec: the dimension of one head, the embedding dimension split into
  \<open>numHeads\<close> subspaces (glossary, multihead attention).
\<close>

definition headDim :: "MultiheadAttention \<Rightarrow> nat" where
  "headDim L = embedDim L div numHeads L"

text \<open>Sequencing of steps that may fail: the first error ends the computation.\<close>

definition then_do :: "error + 'a \<Rightarrow> ('a \<Rightarrow> error + 'b) \<Rightarrow> error + 'b" where
  "then_do r f = (case r of Inl e \<Rightarrow> Inl e | Inr x \<Rightarrow> f x)"

text \<open>
  Modelled from the spec: one segment of column \<open>j\<close> of the input block, the \<open>r * c\<close>
  entries from row \<open>first\<close> on, as an \<open>r\<close> by \<open>c\<close> matrix (section 4.2: the input is
  split into the query, key and value segments).
\<close>

definition segment :: "Mat \<Rightarrow> nat \<Rightarrow> nat \<Rightarrow> nat \<Rightarrow> nat \<Rightarrow> Mat" where
  "segment A j first r c =
     \<lparr>n_rows = r, n_cols = c, mem = map (\<lambda>p. el A (first + p) j) [0..<r * c]\<rparr>"

text \<open>
  Modelled from the spec: a projection, the product with a weight matrix plus a bias on
  every column (section 4.2: each segment is projected, and an output projection is
  applied at the end).
\<close>

definition project :: "Mat \<Rightarrow> Mat \<Rightarrow> Mat \<Rightarrow> error + Mat" where
  "project W b x = then_do (op_mul W x) (\<lambda>y. each_col_plus y b)"

text \<open>
  Modelled from the spec: the rows of a projected segment that belong to head \<open>h\<close>, the
  \<open>d\<close> rows from row \<open>h * d\<close> on.
\<close>

definition head_rows :: "Mat \<Rightarrow> nat \<Rightarrow> nat \<Rightarrow> Mat" where
  "head_rows A h d =
     \<lparr>n_rows = d, n_cols = n_cols A,
      mem = map (\<lambda>p. el A (h * d + p mod d) (p div d)) [0..<d * n_cols A]\<rparr>"

text \<open>Modelled from the spec: the scaling of the dot products, \<open>c * A\<close>.\<close>

definition scale :: "real \<Rightarrow> Mat \<Rightarrow> Mat" where
  "scale c A = A\<lparr>mem := map (\<lambda>p. c * mem A ! p) [0..<n_rows A * n_cols A]\<rparr>"

text \<open>Modelled from the spec: the addition of the attention mask, \<open>A + B\<close>.\<close>

definition op_plus :: "Mat \<Rightarrow> Mat \<Rightarrow> error + Mat" where
  "op_plus A B =
     (if n_rows A \<noteq> n_rows B \<or> n_cols A \<noteq> n_cols B
      then Inl (LogicError ''addition: incompatible matrix dimensions'')
      else Inr (A\<lparr>mem := map (\<lambda>p. mem A ! p + mem B ! p) [0..<n_rows A * n_cols A]\<rparr>))"

text \<open>
  Modelled from the spec: the addition of the key-padding mask, one row of a value for
  each source position, to every row: \<open>A.each_row() += v\<close>.
\<close>

definition each_row_plus :: "Mat \<Rightarrow> Mat \<Rightarrow> error + Mat" where
  "each_row_plus A v =
     (if n_rows v \<noteq> 1 \<or> n_cols v \<noteq> n_cols A
      then Inl (LogicError ''each_row(): incompatible size'')
      else Inr (A\<lparr>mem := map (\<lambda>p. mem A ! p + mem v ! (p div n_rows A))
                              [0..<n_rows A * n_cols A]\<rparr>))"

text \<open>
  Modelled from the spec: the softmax over the source axis. The scores of a head have one
  row for each target position and one column for each source position; every row is
  normalised.
\<close>

definition softmax_rows :: "Mat \<Rightarrow> Mat" where
  "softmax_rows A =
     A\<lparr>mem := map (\<lambda>p. exp (mem A ! p) / (\<Sum>j\<leftarrow>[0..<n_cols A]. exp (el A (p mod n_rows A) j)))
                   [0..<n_rows A * n_cols A]\<rparr>"

text \<open>
  Modelled from the spec: the concatenation of the heads, the rows of \<open>B\<close> below the rows
  of \<open>A\<close>: \<open>join_cols(A, B)\<close>.
\<close>

definition join_cols :: "Mat \<Rightarrow> Mat \<Rightarrow> error + Mat" where
  "join_cols A B =
     (if n_cols A \<noteq> n_cols B
      then Inl (LogicError ''join_cols(): number of columns must be the same'')
      else Inr \<lparr>n_rows = n_rows A + n_rows B, n_cols = n_cols A,
                mem = map (\<lambda>p. let i = p mod (n_rows A + n_rows B); j = p div (n_rows A + n_rows B)
                               in if i < n_rows A then el A i j else el B (i - n_rows A) j)
                          [0..<(n_rows A + n_rows B) * n_cols A]\<rparr>)"

text \<open>
  Modelled from the spec: the result for one point of the batch is written into its
  column of the output, \<open>G.col(c) = X\<close>.
\<close>

definition col_assign :: "Mat \<Rightarrow> nat \<Rightarrow> Mat \<Rightarrow> error + Mat" where
  "col_assign G c X =
     (if c \<ge> n_cols G
      then Inl (LogicError ''Mat::col(): index out of bounds'')
      else if n_rows X \<noteq> n_rows G \<or> n_cols X \<noteq> 1
      then Inl (LogicError ''copy into submatrix: incompatible matrix dimensions'')
      else Inr (G\<lparr>mem := map (\<lambda>p. if p div n_rows G = c then mem X ! (p mod n_rows G)
                                   else mem G ! p)
                              [0..<n_rows G * n_cols G]\<rparr>))"

text \<open>Modelled from the spec: a mask that was not given is an empty matrix.\<close>

definition is_empty :: "Mat \<Rightarrow> bool" where
  "is_empty A \<longleftrightarrow> n_rows A * n_cols A = 0"

text \<open>
  Modelled from the spec: one head (section 4.2). The scaled dot products of the queries
  with the keys, the masks added where they are given, the softmax over the source axis,
  and the values weighted by it.
\<close>

definition attend :: "MultiheadAttention \<Rightarrow> Mat \<Rightarrow> Mat \<Rightarrow> Mat \<Rightarrow> error + Mat" where
  "attend L q k v =
     then_do (op_mul (op_t q) k) (\<lambda>dots.
     then_do (if is_empty (attnMask L) then Inr (scale (1 / sqrt (real (headDim L))) dots)
              else op_plus (scale (1 / sqrt (real (headDim L))) dots) (attnMask L)) (\<lambda>masked.
     then_do (if is_empty (keyPaddingMask L) then Inr masked
              else each_row_plus masked (keyPaddingMask L)) (\<lambda>scores.
     op_mul v (op_t (softmax_rows scores)))))"

text \<open>
  Modelled from the spec: the first \<open>h\<close> heads, concatenated (section 4.2: per-head
  attention, then the heads are concatenated).
\<close>

fun heads :: "MultiheadAttention \<Rightarrow> Mat \<Rightarrow> Mat \<Rightarrow> Mat \<Rightarrow> nat \<Rightarrow> error + Mat" where
  "heads L q k v 0 = Inr empty_mat"
| "heads L q k v (Suc h) =
     then_do (attend L (head_rows q h (headDim L)) (head_rows k h (headDim L))
                (head_rows v h (headDim L))) (\<lambda>ctx.
     if h = 0 then Inr ctx else then_do (heads L q k v h) (\<lambda>above. join_cols above ctx))"

text \<open>
  Modelled from the spec: \<open>Forward\<close> on point \<open>j\<close> of the batch (section 4.2). The column
  is split into the query segment of \<open>tgtSeqLen\<close> embeddings and the key and value
  segments of \<open>srcSeqLen\<close> embeddings each; the segments are projected, the heads attend
  and are concatenated, the output projection is applied, and the result is stacked into
  one column.
\<close>

definition Forward_point :: "MultiheadAttention \<Rightarrow> Mat \<Rightarrow> nat \<Rightarrow> error + Mat" where
  "Forward_point L input j =
     (let E = embedDim L; T = tgtSeqLen L; S = srcSeqLen L
      in then_do (project (queryWt L) (qBias L) (segment input j 0 E T)) (\<lambda>q.
         then_do (project (keyWt L) (kBias L) (segment input j (E * T) E S)) (\<lambda>k.
         then_do (project (valueWt L) (vBias L) (segment input j (E * (T + S)) E S)) (\<lambda>v.
         then_do (heads L q k v (numHeads L)) (\<lambda>ctx.
         then_do (project (outWt L) (outBias L) ctx) (\<lambda>out.
         Inr (vectorise out)))))))"

text \<open>Modelled from the spec: the loop of \<open>Forward\<close> over the first \<open>j\<close> points.\<close>

fun Forward_points :: "MultiheadAttention \<Rightarrow> Mat \<Rightarrow> nat \<Rightarrow> Mat \<Rightarrow> error + Mat" where
  "Forward_points L input 0 output = Inr output"
| "Forward_points L input (Suc j) output =
     then_do (Forward_points L input j output) (\<lambda>filled.
     then_do (Forward_point L input j) (\<lambda>point.
     col_assign filled j point))"

text \<open>
  Modelled from the spec: \<open>MultiheadAttention::Forward(input, output)\<close>. The input block
  has \<open>embedDim * (tgtSeqLen + 2 * srcSeqLen)\<close> rows; the output is sized for one column
  of \<open>embedDim * tgtSeqLen\<close> entries for each point (section 8) and filled point by point.
\<close>

definition MultiheadAttention_Forward :: "MultiheadAttention \<Rightarrow> Mat \<Rightarrow> error + Mat" where
  "MultiheadAttention_Forward L input =
     (if n_rows input \<noteq> embedDim L * (tgtSeqLen L + 2 * srcSeqLen L)
      then Inl (LogicError ''MultiheadAttention::Forward(): input has the wrong number of rows'')
      else Forward_points L input (n_cols input)
             \<lparr>n_rows = embedDim L * tgtSeqLen L, n_cols = n_cols input,
              mem = replicate (embedDim L * tgtSeqLen L * n_cols input) 0\<rparr>)"

text \<open>
  A layer is well formed when the heads divide the embedding dimension, its projections
  are square in the embedding dimension with a bias entry for each row, and a mask that
  is given has one entry for each pair of a target and a source position (attention
  mask) or for each source position (key-padding mask).
\<close>

definition has_shape :: "Mat \<Rightarrow> nat \<Rightarrow> nat \<Rightarrow> bool" where
  "has_shape A r c \<longleftrightarrow> n_rows A = r \<and> n_cols A = c"

definition wf_attention :: "MultiheadAttention \<Rightarrow> bool" where
  "wf_attention L \<longleftrightarrow>
     0 < numHeads L \<and> headDim L * numHeads L = embedDim L
     \<and> has_shape (queryWt L) (embedDim L) (embedDim L) \<and> has_shape (qBias L) (embedDim L) 1
     \<and> has_shape (keyWt L) (embedDim L) (embedDim L) \<and> has_shape (kBias L) (embedDim L) 1
     \<and> has_shape (valueWt L) (embedDim L) (embedDim L) \<and> has_shape (vBias L) (embedDim L) 1
     \<and> has_shape (outWt L) (embedDim L) (embedDim L) \<and> has_shape (outBias L) (embedDim L) 1
     \<and> (is_empty (attnMask L) \<or> has_shape (attnMask L) (tgtSeqLen L) (srcSeqLen L))
     \<and> (is_empty (keyPaddingMask L) \<or> has_shape (keyPaddingMask L) 1 (srcSeqLen L))"

section \<open>Example inputs\<close>

text \<open>
  A layer with two inputs and two outputs and no regularizer, before \<open>SetWeights\<close>; a
  memory that holds \<open>1, 2, 3, ...\<close> from address \<open>0\<close> on.
\<close>

definition example_layer :: LinearType where
  "example_layer = \<lparr>inSize = 2, outSize = 2, weights = aux_mat 0 0 0, weight = aux_mat 0 0 0,
                     bias = aux_mat 0 0 0, regularizer = (\<lambda>w g. g)\<rparr>"

definition example_memory :: memory where
  "example_memory = (\<lambda>a. real a + 1)"

definition example_input :: Mat where
  "example_input = \<lparr>n_rows = 2, n_cols = 1, mem = [1, 1]\<rparr>"

definition example_error :: Mat where
  "example_error = \<lparr>n_rows = 2, n_cols = 1, mem = [1, 2]\<rparr>"

definition example_gradient :: Mat where
  "example_gradient = \<lparr>n_rows = 6, n_cols = 1, mem = [0, 0, 0, 0, 0, 0]\<rparr>"

text \<open>
  A binding state with a test matrix of the given number of rows and a model that is its
  own dimensionality; the classifier answers with one row of probabilities.
\<close>

definition example_state :: "nat \<Rightarrow> nat binding_state" where
  "example_state r =
     \<lparr>params = \<lparr>matrices = [''test'' \<mapsto> \<lparr>n_rows = r, n_cols = 1, mem = replicate r 0\<rparr>],
                 models = [''input_model'' \<mapsto> 3]\<rparr>,
      trace = []\<rparr>"

definition example_Classify :: "nat \<Rightarrow> Mat \<Rightarrow> nat list \<times> Mat" where
  "example_Classify m T =
     (replicate (n_cols T) 0, \<lparr>n_rows = 1, n_cols = n_cols T, mem = replicate (n_cols T) 1\<rparr>)"

text \<open>
  The layer of \<open>SimpleMultiheadAttentionTest\<close>: sequences of length 5, embeddings of
  dimension 4, 2 heads, both masks given, and a batch of 3 points.
\<close>

definition zeros :: "nat \<Rightarrow> nat \<Rightarrow> Mat" where
  "zeros r c = \<lparr>n_rows = r, n_cols = c, mem = replicate (r * c) 0\<rparr>"

definition example_attention :: MultiheadAttention where
  "example_attention =
     \<lparr>tgtSeqLen = 5, srcSeqLen = 5, embedDim = 4, numHeads = 2,
      attnMask = zeros 5 5, keyPaddingMask = zeros 1 5,
      queryWt = zeros 4 4, keyWt = zeros 4 4, valueWt = zeros 4 4, outWt = zeros 4 4,
      qBias = zeros 4 1, kBias = zeros 4 1, vBias = zeros 4 1, outBias = zeros 4 1\<rparr>"

definition example_block :: Mat where
  "example_block = zeros 60 3"

section \<open>Indexing and shapes\<close>

lemma idx_lt: "i < m \<Longrightarrow> j < n \<Longrightarrow> i + j * m < m * (n::nat)"
proof -
  assume a: "i < m" "j < n"
  then have "i + j * m < m + j * m" by simp
  also have "\<dots> = m * Suc j" by simp
  also from a have "\<dots> \<le> m * n" by (intro mult_le_mono2) simp
  finally show ?thesis .
qed

lemma sum_list_upt: "(\<Sum>k\<leftarrow>[0..<n]. f k) = (\<Sum>k<n. (f k :: real))"
  by (simp add: interv_sum_list_conv_sum_set_nat lessThan_atLeast0)

lemma uword_id: "n < 2 ^ 64 \<Longrightarrow> uword n = n"
  by (simp add: uword_def)

lemma op_mul_Inr:
  "n_cols A = n_rows B \<Longrightarrow> \<exists>C. op_mul A B = Inr C"
  by (simp add: op_mul_def)

lemma op_mul_error:
  "n_cols A \<noteq> n_rows B \<Longrightarrow> \<exists>e. op_mul A B = Inl e"
  by (simp add: op_mul_def)

lemma op_mul_shape:
  "op_mul A B = Inr C \<Longrightarrow> n_rows C = n_rows A \<and> n_cols C = n_cols B
     \<and> length (mem C) = n_rows A * n_cols B"
  by (auto simp: op_mul_def split: if_splits)

lemma op_mul_el:
  "op_mul A B = Inr C \<Longrightarrow> i < n_rows A \<Longrightarrow> j < n_cols B \<Longrightarrow>
     el C i j = (\<Sum>k<n_cols A. el A i k * el B k j)"
  by (auto simp: op_mul_def el_def idx_lt sum_list_upt split: if_splits)

lemma op_t_shape: "n_rows (op_t A) = n_cols A \<and> n_cols (op_t A) = n_rows A"
  by (simp add: op_t_def)

lemma op_t_el:
  "i < n_cols A \<Longrightarrow> j < n_rows A \<Longrightarrow> el (op_t A) i j = el A j i"
  by (simp add: op_t_def el_def[of "\<lparr>n_rows = _, n_cols = _, mem = _\<rparr>"] idx_lt)

lemma each_col_plus_Inr:
  "n_rows v = n_rows A \<Longrightarrow> n_cols v = 1 \<Longrightarrow> \<exists>C. each_col_plus A v = Inr C"
  by (simp add: each_col_plus_def)

lemma each_col_plus_shape:
  "each_col_plus A v = Inr C \<Longrightarrow> n_rows C = n_rows A \<and> n_cols C = n_cols A"
  by (auto simp: each_col_plus_def split: if_splits)

lemma each_col_plus_el:
  "each_col_plus A v = Inr C \<Longrightarrow> i < n_rows A \<Longrightarrow> j < n_cols A \<Longrightarrow>
     el C i j = el A i j + el v i 0"
  by (auto simp: each_col_plus_def el_def idx_lt split: if_splits)

text \<open>
  The affine map on matrices, \<open>W * X\<close> with \<open>b\<close> added to every column, and the product
  with a transposed matrix, entry by entry.
\<close>

lemma affine_el:
  assumes "n_cols W = n_rows X" and "n_rows b = n_rows W" and "n_cols b = 1"
  shows "\<exists>P Y. op_mul W X = Inr P \<and> each_col_plus P b = Inr Y
           \<and> n_rows Y = n_rows W \<and> n_cols Y = n_cols X
           \<and> (\<forall>i<n_rows W. \<forall>j<n_cols X.
                 el Y i j = (\<Sum>k<n_cols W. el W i k * el X k j) + el b i 0)"
proof -
  from assms(1) obtain P where P: "op_mul W X = Inr P"
    using op_mul_Inr by blast
  have Ps: "n_rows P = n_rows W" "n_cols P = n_cols X"
    using op_mul_shape [OF P] by simp_all
  obtain Y where Y: "each_col_plus P b = Inr Y"
    using each_col_plus_Inr [of b P] assms(2,3) Ps by auto
  have Ys: "n_rows Y = n_rows W" "n_cols Y = n_cols X"
    using each_col_plus_shape [OF Y] Ps by simp_all
  have "el Y i j = (\<Sum>k<n_cols W. el W i k * el X k j) + el b i 0"
    if "i < n_rows W" "j < n_cols X" for i j
    using each_col_plus_el [OF Y, of i j] op_mul_el [OF P, of i j] that Ps by simp
  with P Y Ys show ?thesis
    by blast
qed

lemma op_mul_t_el:
  assumes "n_rows W = n_rows G"
  shows "\<exists>g. op_mul (op_t W) G = Inr g \<and> n_rows g = n_cols W \<and> n_cols g = n_cols G
           \<and> (\<forall>k<n_cols W. \<forall>j<n_cols G. el g k j = (\<Sum>i<n_rows W. el W i k * el G i j))"
proof -
  obtain g where g: "op_mul (op_t W) G = Inr g"
    using op_mul_Inr [of "op_t W" G] assms by (auto simp: op_t_shape)
  have gs: "n_rows g = n_cols W" "n_cols g = n_cols G"
    using op_mul_shape [OF g] by (simp_all add: op_t_shape)
  have "el g k j = (\<Sum>i<n_rows W. el W i k * el G i j)"
    if "k < n_cols W" "j < n_cols G" for k j
  proof -
    have "el g k j = (\<Sum>i<n_rows W. el (op_t W) k i * el G i j)"
      using op_mul_el [OF g, of k j] that by (simp add: op_t_shape)
    also have "\<dots> = (\<Sum>i<n_rows W. el W i k * el G i j)"
      using that by (intro sum.cong) (simp_all add: op_t_el)
    finally show ?thesis .
  qed
  with g gs show ?thesis
    by blast
qed

lemma submat_assign_col:
  assumes "n_cols G = 1" "r1 \<le> r2" "r2 < n_rows G" "n_rows X = r2 - r1 + 1" "n_cols X = 1"
  shows "submat_assign G r1 0 r2 0 X =
           Inr (G\<lparr>mem := map (\<lambda>p. if r1 \<le> p \<and> p \<le> r2 then mem X ! (p - r1) else mem G ! p)
                               [0..<n_rows G]\<rparr>)"
proof -
  have "map (\<lambda>p. let i = p mod n_rows G; j = p div n_rows G
                  in if r1 \<le> i \<and> i \<le> r2 \<and> 0 \<le> j \<and> j \<le> 0
                     then el X (i - r1) (j - 0) else mem G ! p) [0..<n_rows G * n_cols G]
        = map (\<lambda>p. if r1 \<le> p \<and> p \<le> r2 then mem X ! (p - r1) else mem G ! p) [0..<n_rows G]"
    using assms(1) by (intro map_cong) (auto simp: el_def Let_def)
  then show ?thesis
    using assms by (simp add: submat_assign_def)
qed

lemma deref_el:
  "i < v_rows v \<Longrightarrow> j < v_cols v \<Longrightarrow> el (deref m v) i j = m (ptr v + (i + j * v_rows v))"
  by (simp add: deref_def el_def idx_lt)

lemma deref_write_nth:
  "k < v_rows v * v_cols v \<Longrightarrow> mem (deref (m(ptr v + k := x)) v) ! k = x"
  by (simp add: deref_def)

section \<open>The Linear layer after \<open>SetWeights\<close>\<close>

lemma SetWeights_weight: "weight (SetWeights L p) = aux_mat p (outSize L) (inSize L)"
  by (simp add: SetWeights_def Let_def)

lemma SetWeights_bias:
  "bias (SetWeights L p) = aux_mat (p + uword (outSize L * inSize L)) (outSize L) 1"
  by (simp add: SetWeights_def Let_def v_elem_def aux_mat_def)

lemma SetWeights_weights:
  "weights (SetWeights L p) = aux_mat p (uword (uword (outSize L * inSize L) + outSize L)) 1"
  by (simp add: SetWeights_def Let_def)

lemma SetWeights_sizes:
  "inSize (SetWeights L p) = inSize L \<and> outSize (SetWeights L p) = outSize L
     \<and> regularizer (SetWeights L p) = regularizer L"
  by (simp add: SetWeights_def Let_def)

lemma SetWeights_views:
  assumes "outSize L * inSize L + outSize L < 2 ^ 64"
  shows "weights (SetWeights L p)
           = \<lparr>ptr = p, v_rows = outSize L * inSize L + outSize L, v_cols = 1\<rparr>"
    and "weight (SetWeights L p) = \<lparr>ptr = p, v_rows = outSize L, v_cols = inSize L\<rparr>"
    and "bias (SetWeights L p)
           = \<lparr>ptr = p + outSize L * inSize L, v_rows = outSize L, v_cols = 1\<rparr>"
proof -
  have "outSize L * inSize L < 2 ^ 64"
    using assms by simp
  then show "weights (SetWeights L p)
           = \<lparr>ptr = p, v_rows = outSize L * inSize L + outSize L, v_cols = 1\<rparr>"
    and "weight (SetWeights L p) = \<lparr>ptr = p, v_rows = outSize L, v_cols = inSize L\<rparr>"
    and "bias (SetWeights L p)
           = \<lparr>ptr = p + outSize L * inSize L, v_rows = outSize L, v_cols = 1\<rparr>"
    using assms
    by (simp_all add: SetWeights_weights SetWeights_weight SetWeights_bias aux_mat_def uword_id)
qed

text \<open>An input with another number of rows makes the product throw.\<close>

lemma Forward_nonconforming:
  "n_rows input \<noteq> inSize L \<Longrightarrow> \<exists>e. Forward (SetWeights L p) m input = Inl e"
  by (simp add: Forward_def op_mul_def SetWeights_weight deref_def aux_mat_def)

lemma Gradient_reads_weights:
  "Gradient L m input err gradient = Inr G \<Longrightarrow>
     \<exists>g. G = regularizer L (deref m (weights L)) g"
  by (auto simp: Gradient_def split: sum.splits)

text \<open>
  On a layer without inputs the index \<open>weight.n_elem - 1\<close> wraps around, and the first
  assignment into the gradient is out of bounds.
\<close>

lemma Gradient_no_weights:
  assumes "outSize L * inSize L = 0" and "n_rows gradient < 2 ^ 64"
  shows "\<exists>e. Gradient (SetWeights L p) m input err gradient = Inl e"
proof -
  have "uword (outSize L * inSize L) = 0"
    unfolding assms(1) by (simp add: uword_def)
  then have "v_elem (weight (SetWeights L p)) = 0"
    by (simp add: SetWeights_weight v_elem_def aux_mat_def)
  then have "usub (v_elem (weight (SetWeights L p))) 1 \<ge> n_rows gradient"
    using assms(2) by (simp add: usub_def)
  then have first: "\<exists>e. submat_assign gradient 0 0
                        (usub (v_elem (weight (SetWeights L p))) 1) 0 X = Inl e" for X
    by (simp add: submat_assign_def)
  show ?thesis
  proof (cases "op_mul err (op_t input)")
    case (Inl e)
    then show ?thesis
      by (simp add: Gradient_def)
  next
    case (Inr outer)
    from first [of "vectorise outer"] obtain e where
      "submat_assign gradient 0 0 (usub (v_elem (weight (SetWeights L p))) 1) 0 (vectorise outer)
         = Inl e" ..
    then show ?thesis
      unfolding Gradient_def Inr sum.case by simp
  qed
qed

section \<open>The example layer\<close>

lemma lessThan_1: "{..<(1::nat)} = {0}"
  by auto

lemma lessThan_2: "{..<(2::nat)} = {0, 1}"
  by auto

lemma example_weight:
  "deref example_memory (weight (SetWeights example_layer 0))
     = \<lparr>n_rows = 2, n_cols = 2, mem = [1, 2, 3, 4]\<rparr>"
  by (simp add: SetWeights_weight aux_mat_def example_layer_def deref_def example_memory_def upt_rec)

lemma example_bias:
  "deref example_memory (bias (SetWeights example_layer 0))
     = \<lparr>n_rows = 2, n_cols = 1, mem = [5, 6]\<rparr>"
  by (simp add: SetWeights_bias aux_mat_def example_layer_def uword_def deref_def
        example_memory_def upt_rec)

lemma example_weights:
  "deref example_memory (weights (SetWeights example_layer 0))
     = \<lparr>n_rows = 6, n_cols = 1, mem = [1, 2, 3, 4, 5, 6]\<rparr>"
  by (simp add: SetWeights_weights aux_mat_def example_layer_def uword_def deref_def
        example_memory_def upt_rec)

lemma lessThan_4: "{..<(4::nat)} = {0, 1, 2, 3}"
  by auto

lemma Forward_example:
  "Forward (SetWeights example_layer 0) example_memory example_input
     = Inr \<lparr>n_rows = 2, n_cols = 1, mem = [9, 12]\<rparr>"
  by (simp add: Forward_def example_weight example_bias op_mul_def each_col_plus_def el_def
        example_input_def upt_rec)

section \<open>Claims about the Linear layer\<close>

text \<open>
  C2: for every input matrix whose rows are the inputs of the layer and whose columns are
  the points of a batch, \<open>Forward\<close> sets the output to \<open>weight * input\<close> with the bias
  added to every column: the output has \<open>outSize\<close> rows and one column for each column
  of the input, and its entry \<open>(i, j)\<close> is the dot product of row \<open>i\<close> of the weight
  matrix with column \<open>j\<close> of the input, plus entry \<open>i\<close> of the bias.
\<close>

theorem Forward_affine:
  assumes "n_rows input = inSize L"
  shows "\<exists>output. Forward (SetWeights L p) m input = Inr output
           \<and> n_rows output = outSize L \<and> n_cols output = n_cols input
           \<and> (\<forall>i<outSize L. \<forall>j<n_cols input.
                 el output i j =
                   (\<Sum>k<inSize L. el (deref m (weight (SetWeights L p))) i k * el input k j)
                   + el (deref m (bias (SetWeights L p))) i 0)"
proof -
  let ?W = "deref m (weight (SetWeights L p))" and ?b = "deref m (bias (SetWeights L p))"
  have W: "n_rows ?W = outSize L" "n_cols ?W = inSize L"
    by (simp_all add: SetWeights_weight deref_def aux_mat_def)
  have b: "n_rows ?b = outSize L" "n_cols ?b = 1"
    by (simp_all add: SetWeights_bias deref_def aux_mat_def)
  from affine_el [of ?W input ?b] W b assms obtain P Y where
    "op_mul ?W input = Inr P" "each_col_plus P ?b = Inr Y"
    "n_rows Y = outSize L" "n_cols Y = n_cols input"
    "\<forall>i<outSize L. \<forall>j<n_cols input.
       el Y i j = (\<Sum>k<inSize L. el ?W i k * el input k j) + el ?b i 0"
    by auto
  then show ?thesis
    by (simp add: Forward_def)
qed

theorem Forward_affine_witness:
  "n_rows example_input = inSize example_layer
   \<and> (\<exists>output. Forward (SetWeights example_layer 0) example_memory example_input = Inr output
         \<and> n_rows output = 2 \<and> n_cols output = 1
         \<and> el output 0 0 = 9 \<and> el output 1 0 = 12)"
proof -
  have h: "n_rows example_input = inSize example_layer"
    by (simp add: example_input_def example_layer_def)
  from Forward_affine [OF h, of 0 example_memory] obtain Y where
    Y: "Forward (SetWeights example_layer 0) example_memory example_input = Inr Y"
       "n_rows Y = outSize example_layer" "n_cols Y = n_cols example_input"
    and entry: "\<And>i j. i < outSize example_layer \<Longrightarrow> j < n_cols example_input \<Longrightarrow>
           el Y i j =
             (\<Sum>k<inSize example_layer.
                el (deref example_memory (weight (SetWeights example_layer 0))) i k
                  * el example_input k j)
             + el (deref example_memory (bias (SetWeights example_layer 0))) i 0"
    by blast
  have sz: "outSize example_layer = 2" "inSize example_layer = 2" "n_cols example_input = 1"
    by (simp_all add: example_layer_def example_input_def)
  have "el Y 0 0 = 9" "el Y 1 0 = 12"
    using entry [of 0 0] entry [of 1 0]
    by (simp_all add: sz example_weight example_bias lessThan_2 el_def example_input_def)
  with h Y sz show ?thesis
    by auto
qed

text \<open>
  C3: for every output-gradient matrix \<open>gy\<close> with one row for each output of the layer,
  \<open>Backward\<close> sets the input gradient \<open>g\<close> to the transpose of the weight matrix
  times \<open>gy\<close>: \<open>g\<close> has \<open>inSize\<close> rows and the columns of \<open>gy\<close>, and its entry
  \<open>(k, j)\<close> is the dot product of column \<open>k\<close> of the weight matrix with column \<open>j\<close>
  of \<open>gy\<close>.
\<close>

theorem Backward_transpose:
  assumes "n_rows gy = outSize L"
  shows "\<exists>g. Backward (SetWeights L p) m input gy = Inr g
           \<and> n_rows g = inSize L \<and> n_cols g = n_cols gy
           \<and> (\<forall>k<inSize L. \<forall>j<n_cols gy.
                 el g k j = (\<Sum>i<outSize L. el (deref m (weight (SetWeights L p))) i k * el gy i j))"
proof -
  let ?W = "deref m (weight (SetWeights L p))"
  have W: "n_rows ?W = outSize L" "n_cols ?W = inSize L"
    by (simp_all add: SetWeights_weight deref_def aux_mat_def)
  from op_mul_t_el [of ?W gy] W assms show ?thesis
    by (simp add: Backward_def)
qed

theorem Backward_transpose_witness:
  "n_rows example_error = outSize example_layer
   \<and> (\<exists>g. Backward (SetWeights example_layer 0) example_memory example_input example_error = Inr g
         \<and> n_rows g = 2 \<and> n_cols g = 1 \<and> el g 0 0 = 5 \<and> el g 1 0 = 11)"
proof -
  have h: "n_rows example_error = outSize example_layer"
    by (simp add: example_error_def example_layer_def)
  from Backward_transpose [OF h, of 0 example_memory example_input] obtain g where
    g: "Backward (SetWeights example_layer 0) example_memory example_input example_error = Inr g"
       "n_rows g = inSize example_layer" "n_cols g = n_cols example_error"
    and entry: "\<And>k j. k < inSize example_layer \<Longrightarrow> j < n_cols example_error \<Longrightarrow>
           el g k j =
             (\<Sum>i<outSize example_layer.
                el (deref example_memory (weight (SetWeights example_layer 0))) i k
                  * el example_error i j)"
    by blast
  have sz: "outSize example_layer = 2" "inSize example_layer = 2" "n_cols example_error = 1"
    by (simp_all add: example_layer_def example_error_def)
  have "el g 0 0 = 5" "el g 1 0 = 11"
    using entry [of 0 0] entry [of 1 0]
    by (simp_all add: sz example_weight lessThan_2 el_def example_error_def)
  with h g sz show ?thesis
    by auto
qed

text \<open>
  C4: for every input and error matrix that fit the layer, and a gradient buffer of
  \<open>outSize * inSize + outSize\<close> entries, \<open>Gradient\<close> writes the vectorised outer
  product \<open>error * input\<^sup>T\<close> into the first \<open>outSize * inSize\<close> entries of the buffer
  (entry \<open>i + k * outSize\<close> is the sum over the batch of \<open>error(i, j) * input(k, j)\<close>),
  writes the row sums of the error into the following \<open>outSize\<close> entries, and returns
  the buffer after the regularizer has been applied to it with the parameters of the layer.
\<close>

theorem Gradient_entries:
  assumes sz: "0 < inSize L" "0 < outSize L" "outSize L * inSize L + outSize L < 2 ^ 64"
    and inp: "n_rows input = inSize L"
    and err: "n_rows err = outSize L" "n_cols err = n_cols input"
    and grad: "n_rows gradient = outSize L * inSize L + outSize L" "n_cols gradient = 1"
  shows "\<exists>g. Gradient (SetWeights L p) m input err gradient
               = Inr (regularizer L (deref m (weights (SetWeights L p))) g)
           \<and> n_rows g = outSize L * inSize L + outSize L \<and> n_cols g = 1
           \<and> length (mem g) = outSize L * inSize L + outSize L
           \<and> (\<forall>i<outSize L. \<forall>k<inSize L.
                 mem g ! (i + k * outSize L) = (\<Sum>j<n_cols input. el err i j * el input k j))
           \<and> (\<forall>i<outSize L.
                 mem g ! (outSize L * inSize L + i) = (\<Sum>j<n_cols input. el err i j))"
proof -
  let ?o = "outSize L" and ?i = "inSize L" and ?L = "SetWeights L p"
  have oi: "0 < ?o * ?i" "?o * ?i < 2 ^ 64"
    using sz by simp_all
  have we: "v_elem (weight ?L) = ?o * ?i"
    using oi by (simp add: SetWeights_weight v_elem_def aux_mat_def uword_id)
  obtain outer where outer: "op_mul err (op_t input) = Inr outer"
    using op_mul_Inr [of err "op_t input"] err by (auto simp: op_t_shape)
  have os: "n_rows outer = ?o" "n_cols outer = ?i" "length (mem outer) = ?o * ?i"
    using op_mul_shape [OF outer] err inp by (simp_all add: op_t_shape)
  have oel: "mem outer ! (r + k * ?o) = (\<Sum>j<n_cols input. el err r j * el input k j)"
    if "r < ?o" "k < ?i" for r k
  proof -
    have "mem outer ! (r + k * ?o) = el outer r k"
      by (simp add: el_def os)
    also have "\<dots> = (\<Sum>j<n_cols input. el err r j * el (op_t input) j k)"
      using op_mul_el [OF outer, of r k] that err inp by (simp add: op_t_shape)
    also have "\<dots> = (\<Sum>j<n_cols input. el err r j * el input k j)"
      using that inp by (intro sum.cong) (simp_all add: op_t_el)
    finally show ?thesis .
  qed
  define g1 where "g1 = gradient\<lparr>mem := map (\<lambda>q. if 0 \<le> q \<and> q \<le> ?o * ?i - 1
        then mem (vectorise outer) ! (q - 0) else mem gradient ! q) [0..<n_rows gradient]\<rparr>"
  have s1: "submat_assign gradient 0 0 (usub (v_elem (weight ?L)) 1) 0 (vectorise outer) = Inr g1"
  proof -
    define n where "n = ?o * ?i"
    have "0 < n" "n_rows gradient = n + ?o"
      using oi(1) grad(1) by (simp_all add: n_def)
    then have "usub n 1 = n - 1" "n - 1 < n_rows gradient" "n = n - 1 - 0 + 1"
      by (simp_all add: usub_def)
    then have r: "usub (?o * ?i) 1 = ?o * ?i - 1" "?o * ?i - 1 < n_rows gradient"
      "?o * ?i = ?o * ?i - 1 - 0 + 1"
      unfolding n_def .
    show ?thesis
      unfolding g1_def we r(1)
      by (rule submat_assign_col) (use r grad os in \<open>simp_all add: vectorise_def\<close>)
  qed
  have g1s: "n_rows g1 = ?o * ?i + ?o" "n_cols g1 = 1"
    using grad by (simp_all add: g1_def)
  have g1e: "n_elem g1 = ?o * ?i + ?o"
    using g1s sz by (simp add: n_elem_def uword_id)
  define g2 where "g2 = g1\<lparr>mem := map (\<lambda>q. if ?o * ?i \<le> q \<and> q \<le> ?o * ?i + ?o - 1
        then mem (sum_dim1 err) ! (q - ?o * ?i) else mem g1 ! q) [0..<n_rows g1]\<rparr>"
  have s2: "submat_assign g1 (v_elem (weight ?L)) 0 (usub (n_elem g1) 1) 0 (sum_dim1 err) = Inr g2"
  proof -
    define n where "n = ?o * ?i"
    have "0 < ?o" "n_rows g1 = n + ?o"
      using sz(2) g1s(1) by (simp_all add: n_def)
    then have "usub (n + ?o) 1 = n + ?o - 1" "n + ?o - 1 < n_rows g1"
      "n \<le> n + ?o - 1" "?o = n + ?o - 1 - n + 1"
      by (simp_all add: usub_def)
    then have r: "usub (?o * ?i + ?o) 1 = ?o * ?i + ?o - 1" "?o * ?i + ?o - 1 < n_rows g1"
      "?o * ?i \<le> ?o * ?i + ?o - 1" "?o = ?o * ?i + ?o - 1 - ?o * ?i + 1"
      unfolding n_def .
    show ?thesis
      unfolding g2_def we g1e r(1)
      by (rule submat_assign_col) (use r g1s err in \<open>simp_all add: sum_dim1_def\<close>)
  qed
  have G: "Gradient ?L m input err gradient = Inr (regularizer L (deref m (weights ?L)) g2)"
    unfolding Gradient_def outer sum.case s1 s2 by (simp add: SetWeights_sizes)
  have g2s: "n_rows g2 = ?o * ?i + ?o" "n_cols g2 = 1" "length (mem g2) = ?o * ?i + ?o"
    using g1s by (simp_all add: g2_def)
  have wpart: "mem g2 ! (r + k * ?o) = (\<Sum>j<n_cols input. el err r j * el input k j)"
    if "r < ?o" "k < ?i" for r k
  proof -
    define q n where "q = r + k * ?o" and "n = ?o * ?i"
    have "q < n"
      unfolding q_def n_def using that by (rule idx_lt)
    then have q: "q < n + ?o" "\<not> n \<le> q" "q \<le> n - 1"
      by simp_all
    have "mem g2 ! q = mem g1 ! q"
      using q g1s by (simp add: g2_def n_def)
    also have "\<dots> = mem outer ! q"
      using q grad by (simp add: g1_def vectorise_def n_def)
    finally show ?thesis
      using oel [OF that] by (simp add: q_def)
  qed
  have bpart: "mem g2 ! (?o * ?i + r) = (\<Sum>j<n_cols input. el err r j)" if "r < ?o" for r
  proof -
    define n where "n = ?o * ?i"
    have q: "n + r < n + ?o" "n \<le> n + r" "n + r \<le> n + ?o - 1" "r < n_rows err"
      using that err by simp_all
    have "mem g2 ! (n + r) = mem (sum_dim1 err) ! r"
      using q g1s by (simp add: g2_def n_def [symmetric])
    also have "\<dots> = (\<Sum>j<n_cols input. el err r j)"
      using q err by (simp add: sum_dim1_def sum_list_upt)
    finally show ?thesis
      by (simp add: n_def)
  qed
  from G g2s wpart bpart show ?thesis
    by blast
qed

theorem Gradient_entries_witness:
  "0 < inSize example_layer \<and> 0 < outSize example_layer
   \<and> outSize example_layer * inSize example_layer + outSize example_layer < 2 ^ 64
   \<and> n_rows example_input = inSize example_layer
   \<and> n_rows example_error = outSize example_layer \<and> n_cols example_error = n_cols example_input
   \<and> n_rows example_gradient = outSize example_layer * inSize example_layer + outSize example_layer
   \<and> n_cols example_gradient = 1
   \<and> (\<exists>g. Gradient (SetWeights example_layer 0) example_memory example_input example_error
              example_gradient = Inr g
         \<and> n_rows g = 6 \<and> n_cols g = 1 \<and> length (mem g) = 6
         \<and> mem g ! 0 = 1 \<and> mem g ! 1 = 2 \<and> mem g ! 2 = 1 \<and> mem g ! 3 = 2
         \<and> mem g ! 4 = 1 \<and> mem g ! 5 = 2)"
proof -
  have sz: "outSize example_layer = 2" "inSize example_layer = 2" "n_cols example_input = 1"
    "n_rows example_input = 2" "n_rows example_error = 2" "n_cols example_error = 1"
    "n_rows example_gradient = 6" "n_cols example_gradient = 1"
    "regularizer example_layer = (\<lambda>w g. g)"
    by (simp_all add: example_layer_def example_input_def example_error_def example_gradient_def)
  have h: "0 < inSize example_layer" "0 < outSize example_layer"
    "outSize example_layer * inSize example_layer + outSize example_layer < 2 ^ 64"
    "n_rows example_input = inSize example_layer"
    "n_rows example_error = outSize example_layer" "n_cols example_error = n_cols example_input"
    "n_rows example_gradient
       = outSize example_layer * inSize example_layer + outSize example_layer"
    "n_cols example_gradient = 1"
    by (simp_all add: sz)
  from Gradient_entries [OF h, of 0 example_memory] obtain g where
    g: "Gradient (SetWeights example_layer 0) example_memory example_input example_error
          example_gradient
        = Inr (regularizer example_layer
                 (deref example_memory (weights (SetWeights example_layer 0))) g)"
       "n_rows g = outSize example_layer * inSize example_layer + outSize example_layer"
       "n_cols g = 1"
       "length (mem g) = outSize example_layer * inSize example_layer + outSize example_layer"
    and wpart: "\<And>i k. i < outSize example_layer \<Longrightarrow> k < inSize example_layer \<Longrightarrow>
           mem g ! (i + k * outSize example_layer)
             = (\<Sum>j<n_cols example_input. el example_error i j * el example_input k j)"
    and bpart: "\<And>i. i < outSize example_layer \<Longrightarrow>
           mem g ! (outSize example_layer * inSize example_layer + i)
             = (\<Sum>j<n_cols example_input. el example_error i j)"
    by blast
  have "mem g ! 0 = 1" "mem g ! 1 = 2" "mem g ! 2 = 1" "mem g ! 3 = 2"
    using wpart [of 0 0] wpart [of 1 0] wpart [of 0 1] wpart [of 1 1]
    by (simp_all add: sz lessThan_1 el_def example_error_def example_input_def
          numeral_2_eq_2 numeral_3_eq_3)
  moreover have "mem g ! 4 = 1" "mem g ! 5 = 2"
    using bpart [of 0] bpart [of 1]
    by (simp_all add: sz lessThan_1 el_def example_error_def)
  ultimately show ?thesis
    using h g by (simp add: sz)
qed

text \<open>
  C10: \<open>SetWeights(ptr)\<close> copies no parameter. It installs three windows onto the
  caller's buffer: all \<open>outSize * inSize + outSize\<close> parameters as one column, the weight
  matrix on the first \<open>outSize * inSize\<close> entries as an \<open>outSize\<close> by \<open>inSize\<close>
  matrix, and the bias on the next \<open>outSize\<close> entries. A value written into the buffer
  afterwards is the value the windows show, and \<open>Forward\<close>, \<open>Backward\<close> and
  \<open>Gradient\<close> compute with the buffer as it is in memory when they are called.
\<close>

theorem SetWeights_aliases:
  assumes "outSize L * inSize L + outSize L < 2 ^ 64"
  shows "weights (SetWeights L p)
           = \<lparr>ptr = p, v_rows = outSize L * inSize L + outSize L, v_cols = 1\<rparr>
       \<and> weight (SetWeights L p) = \<lparr>ptr = p, v_rows = outSize L, v_cols = inSize L\<rparr>
       \<and> bias (SetWeights L p)
           = \<lparr>ptr = p + outSize L * inSize L, v_rows = outSize L, v_cols = 1\<rparr>
       \<and> (\<forall>k<outSize L * inSize L + outSize L.
             mem (deref (m(p + k := x)) (weights (SetWeights L p))) ! k = x)
       \<and> (\<forall>r<outSize L. \<forall>c<inSize L.
             el (deref (m(p + (r + c * outSize L) := x)) (weight (SetWeights L p))) r c = x)
       \<and> (\<forall>r<outSize L.
             el (deref (m(p + (outSize L * inSize L + r) := x)) (bias (SetWeights L p))) r 0 = x)
       \<and> (n_rows input = inSize L \<longrightarrow>
            (\<exists>output. Forward (SetWeights L p) m input = Inr output
               \<and> (\<forall>r<outSize L. \<forall>j<n_cols input.
                     el output r j = (\<Sum>k<inSize L. m (p + (r + k * outSize L)) * el input k j)
                                      + m (p + (outSize L * inSize L + r)))))
       \<and> (n_rows gy = outSize L \<longrightarrow>
            (\<exists>g. Backward (SetWeights L p) m input gy = Inr g
               \<and> (\<forall>k<inSize L. \<forall>j<n_cols gy.
                     el g k j = (\<Sum>r<outSize L. m (p + (r + k * outSize L)) * el gy r j))))
       \<and> (\<forall>G. Gradient (SetWeights L p) m input err gradient = Inr G \<longrightarrow>
            (\<exists>g. G = regularizer L
                        \<lparr>n_rows = outSize L * inSize L + outSize L, n_cols = 1,
                         mem = map (\<lambda>k. m (p + k)) [0..<outSize L * inSize L + outSize L]\<rparr> g))"
proof -
  let ?L = "SetWeights L p"
  note v = SetWeights_views [OF assms, of p]
  have reads_W: "el (deref m' (weight ?L)) r c = m' (p + (r + c * outSize L))"
    if "r < outSize L" "c < inSize L" for m' r c
    using that by (simp add: v deref_el)
  have reads_b: "el (deref m' (bias ?L)) r 0 = m' (p + (outSize L * inSize L + r))"
    if "r < outSize L" for m' r
    using that by (simp add: v deref_el add.assoc)
  have c4: "\<forall>k<outSize L * inSize L + outSize L.
              mem (deref (m(p + k := x)) (weights ?L)) ! k = x"
    using deref_write_nth [of _ "weights ?L" m x] by (simp add: v)
  have c5: "\<forall>r<outSize L. \<forall>c<inSize L.
              el (deref (m(p + (r + c * outSize L) := x)) (weight ?L)) r c = x"
    by (simp add: reads_W)
  have c6: "\<forall>r<outSize L.
              el (deref (m(p + (outSize L * inSize L + r) := x)) (bias ?L)) r 0 = x"
    by (simp add: reads_b)
  have c7: "\<exists>output. Forward ?L m input = Inr output
               \<and> (\<forall>r<outSize L. \<forall>j<n_cols input.
                     el output r j = (\<Sum>k<inSize L. m (p + (r + k * outSize L)) * el input k j)
                                      + m (p + (outSize L * inSize L + r)))"
    if "n_rows input = inSize L"
  proof -
    let ?W = "deref m (weight ?L)" and ?b = "deref m (bias ?L)"
    have s: "n_cols ?W = n_rows input" "n_rows ?b = n_rows ?W" "n_cols ?b = 1"
      "n_rows ?W = outSize L" "n_cols ?W = inSize L"
      using that by (simp_all add: v deref_def)
    from affine_el [OF s(1,2,3)] obtain P Y where
      o: "op_mul ?W input = Inr P" "each_col_plus P ?b = Inr Y"
         "\<forall>i<n_rows ?W. \<forall>j<n_cols input.
            el Y i j = (\<Sum>k<n_cols ?W. el ?W i k * el input k j) + el ?b i 0"
      by blast
    have "el Y r j = (\<Sum>k<inSize L. m (p + (r + k * outSize L)) * el input k j)
                              + m (p + (outSize L * inSize L + r))"
      if "r < outSize L" "j < n_cols input" for r j
      using o(3) that by (simp add: s(4,5) reads_W reads_b)
    moreover have "Forward ?L m input = Inr Y"
      by (simp add: Forward_def o(1,2))
    ultimately show ?thesis by blast
  qed
  have c8: "\<exists>g. Backward ?L m input gy = Inr g
               \<and> (\<forall>k<inSize L. \<forall>j<n_cols gy.
                     el g k j = (\<Sum>r<outSize L. m (p + (r + k * outSize L)) * el gy r j))"
    if "n_rows gy = outSize L"
  proof -
    let ?W = "deref m (weight ?L)"
    have s: "n_rows ?W = n_rows gy" "n_rows ?W = outSize L" "n_cols ?W = inSize L"
      using that by (simp_all add: v deref_def)
    from op_mul_t_el [OF s(1)] obtain g where
      g: "op_mul (op_t ?W) gy = Inr g"
         "\<forall>k<n_cols ?W. \<forall>j<n_cols gy. el g k j = (\<Sum>i<n_rows ?W. el ?W i k * el gy i j)"
      by blast
    have "el g k j = (\<Sum>r<outSize L. m (p + (r + k * outSize L)) * el gy r j)"
      if "k < inSize L" "j < n_cols gy" for k j
      using g(2) that by (simp add: s(2,3) reads_W)
    with g(1) show ?thesis
      by (auto simp: Backward_def)
  qed
  have c9: "\<exists>g. G = regularizer L
                        \<lparr>n_rows = outSize L * inSize L + outSize L, n_cols = 1,
                         mem = map (\<lambda>k. m (p + k)) [0..<outSize L * inSize L + outSize L]\<rparr> g"
    if "Gradient ?L m input err gradient = Inr G" for G
    using Gradient_reads_weights [OF that] by (simp add: v deref_def SetWeights_sizes)
  from v c4 c5 c6 c7 c8 c9 show ?thesis
    by blast
qed

theorem SetWeights_aliases_witness:
  "outSize example_layer * inSize example_layer + outSize example_layer < 2 ^ 64
   \<and> weights (SetWeights example_layer 0) = \<lparr>ptr = 0, v_rows = 6, v_cols = 1\<rparr>
   \<and> weight (SetWeights example_layer 0) = \<lparr>ptr = 0, v_rows = 2, v_cols = 2\<rparr>
   \<and> bias (SetWeights example_layer 0) = \<lparr>ptr = 4, v_rows = 2, v_cols = 1\<rparr>
   \<and> mem (deref (example_memory(3 := 42)) (weights (SetWeights example_layer 0))) ! 3 = 42
   \<and> el (deref (example_memory(3 := 42)) (weight (SetWeights example_layer 0))) 1 1 = 42
   \<and> el (deref (example_memory(5 := 42)) (bias (SetWeights example_layer 0))) 1 0 = 42
   \<and> (\<exists>output. Forward (SetWeights example_layer 0) (example_memory(3 := 42)) example_input
                  = Inr output \<and> el output 1 0 = 50)"
proof -
  have sz: "outSize example_layer = 2" "inSize example_layer = 2" "n_cols example_input = 1"
    "n_rows example_input = 2"
    by (simp_all add: example_layer_def example_input_def)
  have h: "outSize example_layer * inSize example_layer + outSize example_layer < 2 ^ 64"
    by (simp add: sz)
  note a = SetWeights_aliases [OF h, of 0]
  have views: "weights (SetWeights example_layer 0) = \<lparr>ptr = 0, v_rows = 6, v_cols = 1\<rparr>"
    "weight (SetWeights example_layer 0) = \<lparr>ptr = 0, v_rows = 2, v_cols = 2\<rparr>"
    "bias (SetWeights example_layer 0) = \<lparr>ptr = 4, v_rows = 2, v_cols = 1\<rparr>"
    using a by (simp_all add: sz)
  have w1: "mem (deref (example_memory(3 := 42)) (weights (SetWeights example_layer 0))) ! 3 = 42"
  proof -
    from a [of example_memory 42] have
      "\<And>k. k < outSize example_layer * inSize example_layer + outSize example_layer \<Longrightarrow>
         mem (deref (example_memory(0 + k := 42)) (weights (SetWeights example_layer 0))) ! k = 42"
      by blast
    from this [of 3] show ?thesis
      by (simp add: sz)
  qed
  have w2: "el (deref (example_memory(3 := 42)) (weight (SetWeights example_layer 0))) 1 1 = 42"
  proof -
    from a [of example_memory 42] have
      "\<And>r c. r < outSize example_layer \<Longrightarrow> c < inSize example_layer \<Longrightarrow>
         el (deref (example_memory(0 + (r + c * outSize example_layer) := 42))
               (weight (SetWeights example_layer 0))) r c = 42"
      by blast
    from this [of 1 1] show ?thesis
      by (simp add: sz numeral_3_eq_3)
  qed
  have w3: "el (deref (example_memory(5 := 42)) (bias (SetWeights example_layer 0))) 1 0 = 42"
  proof -
    from a [of example_memory 42] have
      "\<And>r. r < outSize example_layer \<Longrightarrow>
         el (deref (example_memory(0 + (outSize example_layer * inSize example_layer + r) := 42))
               (bias (SetWeights example_layer 0))) r 0 = 42"
      by blast
    from this [of 1] show ?thesis
      by (simp add: sz)
  qed
  have w4: "\<exists>output. Forward (SetWeights example_layer 0) (example_memory(3 := 42)) example_input
                  = Inr output \<and> el output 1 0 = 50"
  proof -
    have "n_rows example_input = inSize example_layer"
      by (simp add: sz)
    with a [of "example_memory(3 := 42)" _ example_input] obtain Y where
      Y: "Forward (SetWeights example_layer 0) (example_memory(3 := 42)) example_input = Inr Y"
      and entry: "\<forall>r<outSize example_layer. \<forall>j<n_cols example_input.
           el Y r j = (\<Sum>k<inSize example_layer.
                         (example_memory(3 := 42)) (0 + (r + k * outSize example_layer))
                           * el example_input k j)
                      + (example_memory(3 := 42))
                          (0 + (outSize example_layer * inSize example_layer + r))"
      by blast
    from entry [rule_format, of 1 0] have "el Y 1 0 = 50"
      by (simp add: sz lessThan_2 example_memory_def el_def example_input_def)
    with Y show ?thesis
      by blast
  qed
  from h views w1 w2 w3 w4 show ?thesis
    by blast
qed

section \<open>Claims about the AdaBoost binding\<close>

text \<open>
  C5: with a test matrix and a model passed, if the number of rows of the test matrix
  differs from the dimensionality of the model, the binding ends with a fatal error, makes
  no call on the timers or the classifier and leaves the \<open>probabilities\<close> output as it
  was; if they are equal, it returns normally, the classification has run between the
  start and the stop of its timer, and the \<open>probabilities\<close> output is the probability
  matrix of the classification.
\<close>

theorem predict_proba_dimensionality:
  assumes "matrices (params s) ''test'' = Some T" and "models (params s) ''input_model'' = Some M"
  shows "(n_rows T \<noteq> dimensionality M \<longrightarrow>
            (\<exists>msg. fst (BINDING_FUNCTION dimensionality classify s) = Some (Fatal msg))
            \<and> trace (snd (BINDING_FUNCTION dimensionality classify s)) = trace s
            \<and> matrices (params (snd (BINDING_FUNCTION dimensionality classify s))) ''probabilities''
                = matrices (params s) ''probabilities'')
       \<and> (n_rows T = dimensionality M \<longrightarrow>
            fst (BINDING_FUNCTION dimensionality classify s) = None
            \<and> trace (snd (BINDING_FUNCTION dimensionality classify s))
                = trace s @ [TimerStart ''adaboost_classification'', ClassifyCall,
                             TimerStop ''adaboost_classification'']
            \<and> matrices (params (snd (BINDING_FUNCTION dimensionality classify s))) ''probabilities''
                = Some (snd (classify M T)))"
  using assms by (simp add: BINDING_FUNCTION_def Let_def split: prod.split)

theorem predict_proba_dimensionality_witness:
  "matrices (params (example_state 2)) ''test'' = Some \<lparr>n_rows = 2, n_cols = 1, mem = [0, 0]\<rparr>
   \<and> models (params (example_state 2)) ''input_model'' = Some 3
   \<and> n_rows \<lparr>n_rows = 2, n_cols = 1, mem = [0, 0]\<rparr> \<noteq> 3
   \<and> (\<exists>msg. fst (BINDING_FUNCTION (\<lambda>m. m) example_Classify (example_state 2))
               = Some (Fatal msg))
   \<and> trace (snd (BINDING_FUNCTION (\<lambda>m. m) example_Classify (example_state 2))) = []
   \<and> matrices (params (snd (BINDING_FUNCTION (\<lambda>m. m) example_Classify (example_state 2))))
        ''probabilities'' = None
   \<and> matrices (params (example_state 3)) ''test''
        = Some \<lparr>n_rows = 3, n_cols = 1, mem = [0, 0, 0]\<rparr>
   \<and> models (params (example_state 3)) ''input_model'' = Some 3
   \<and> fst (BINDING_FUNCTION (\<lambda>m. m) example_Classify (example_state 3)) = None
   \<and> trace (snd (BINDING_FUNCTION (\<lambda>m. m) example_Classify (example_state 3)))
        = [TimerStart ''adaboost_classification'', ClassifyCall,
           TimerStop ''adaboost_classification'']
   \<and> matrices (params (snd (BINDING_FUNCTION (\<lambda>m. m) example_Classify (example_state 3))))
        ''probabilities'' = Some \<lparr>n_rows = 1, n_cols = 1, mem = [1]\<rparr>"
proof -
  have h2: "matrices (params (example_state 2)) ''test''
              = Some \<lparr>n_rows = 2, n_cols = 1, mem = [0, 0]\<rparr>"
    "models (params (example_state 2)) ''input_model'' = Some 3"
    by (simp_all add: example_state_def numeral_2_eq_2)
  have h3: "matrices (params (example_state 3)) ''test''
              = Some \<lparr>n_rows = 3, n_cols = 1, mem = [0, 0, 0]\<rparr>"
    "models (params (example_state 3)) ''input_model'' = Some 3"
    by (simp_all add: example_state_def numeral_3_eq_3)
  have s: "trace (example_state 2) = []" "trace (example_state 3) = []"
    "matrices (params (example_state 2)) ''probabilities'' = None"
    by (simp_all add: example_state_def)
  show ?thesis
    using predict_proba_dimensionality [OF h2, of "\<lambda>m. m" example_Classify]
      predict_proba_dimensionality [OF h3, of "\<lambda>m. m" example_Classify]
    by (simp add: h2 h3 s example_Classify_def)
qed

section \<open>Claims about the discrete distribution\<close>

lemma prob_dims_prod:
  "list_all2 (\<lambda>x p. x < length p) xs ps \<Longrightarrow>
     prob_dims ps xs = Some (\<Prod>i<length ps. ps ! i ! (xs ! i))"
proof (induction ps xs rule: prob_dims.induct)
  case 1
  then show ?case by simp
next
  case (2 p ps x xs)
  then show ?case
    by (simp add: prod.lessThan_Suc_shift del: prod.lessThan_Suc)
qed simp_all

text \<open>The values that the tests of the repository expect.\<close>

lemma DiscreteDistributionProbabilityTest:
  "Probability (set_Probabilities (DiscreteDistribution_num 5) 0
                  [2 / 10, 4 / 10, 1 / 10, 1 / 10, 2 / 10]) [1] = Some (4 / 10)"
  by (simp add: Probability_def set_Probabilities_def DiscreteDistribution_num_def)

lemma MultiDiscreteDistributionTrainTest:
  "Option.bind (DiscreteDistribution_probs
      [[1 / 10, 3 / 10, 6 / 10], [3 / 10, 3 / 10, 3 / 10], [1 / 4, 1 / 4, 1 / 2]])
     (\<lambda>d. Probability d [0, 0, 0]) = Some (1 / 120)"
  "Option.bind (DiscreteDistribution_probs
      [[1 / 10, 3 / 10, 6 / 10], [3 / 10, 3 / 10, 3 / 10], [1 / 4, 1 / 4, 1 / 2]])
     (\<lambda>d. Probability d [0, 1, 2]) = Some (1 / 60)"
  "Option.bind (DiscreteDistribution_probs
      [[1 / 10, 3 / 10, 6 / 10], [3 / 10, 3 / 10, 3 / 10], [1 / 4, 1 / 4, 1 / 2]])
     (\<lambda>d. Probability d [2, 1, 0]) = Some (1 / 20)"
  by (simp_all add: Probability_def DiscreteDistribution_probs_def valid_probabilities_def)

text \<open>
  C6: the constructors fix the number of dimensions and the cardinality of each dimension
  (the constructor from probability vectors returns a distribution on every list of valid
  vectors, and whenever it returns one), and for every distribution and every observation
  in its support, \<open>Probability(observation)\<close> is the product over the dimensions of the
  stored probability of that dimension's symbol.
\<close>

theorem Probability_product:
  "Dimensionality (DiscreteDistribution_nums numObservations) = length numObservations
   \<and> map length (probabilities (DiscreteDistribution_nums numObservations)) = numObservations
   \<and> (list_all valid_probabilities pro \<longrightarrow>
        (\<exists>c. DiscreteDistribution_probs pro = Some c))
   \<and> (\<forall>c. DiscreteDistribution_probs pro = Some c \<longrightarrow>
        Dimensionality c = length pro \<and> map length (probabilities c) = map length pro)
   \<and> (in_support d observation \<longrightarrow>
        Probability d observation
          = Some (\<Prod>i<Dimensionality d. probabilities d ! i ! (observation ! i)))"
proof -
  have "Dimensionality c = length pro \<and> map length (probabilities c) = map length pro"
    if "DiscreteDistribution_probs pro = Some c" for c
    using that
    by (auto simp: DiscreteDistribution_probs_def Dimensionality_def comp_def split: if_splits)
  moreover have "Probability d observation
          = Some (\<Prod>i<Dimensionality d. probabilities d ! i ! (observation ! i))"
    if "in_support d observation"
    using that by (simp add: in_support_def Probability_def Dimensionality_def prob_dims_prod)
  ultimately show ?thesis
    by (simp add: Dimensionality_def DiscreteDistribution_nums_def DiscreteDistribution_probs_def
          comp_def)
qed

theorem Probability_product_witness:
  "in_support (DiscreteDistribution_nums [4, 4, 4, 4]) [0, 1, 2, 3]
   \<and> Probability (DiscreteDistribution_nums [4, 4, 4, 4]) [0, 1, 2, 3] = Some (1 / 256)
   \<and> list_all valid_probabilities
        [[1 / 10, 3 / 10, 6 / 10], [3 / 10, 3 / 10, 3 / 10], [1 / 4, 1 / 4, 1 / 2]]
   \<and> (\<exists>c. DiscreteDistribution_probs
              [[1 / 10, 3 / 10, 6 / 10], [3 / 10, 3 / 10, 3 / 10], [1 / 4, 1 / 4, 1 / 2]] = Some c
          \<and> Dimensionality c = 3 \<and> map length (probabilities c) = [3, 3, 3])"
proof -
  let ?pro = "[[1 / 10, 3 / 10, 6 / 10], [3 / 10, 3 / 10, 3 / 10], [1 / 4, 1 / 4, 1 / 2::real]]"
  note p = Probability_product [of "[4, 4, 4, 4]" ?pro "DiscreteDistribution_nums [4, 4, 4, 4]"
      "[0, 1, 2, 3]"]
  have h: "in_support (DiscreteDistribution_nums [4, 4, 4, 4]) [0, 1, 2, 3]"
    by (simp add: in_support_def DiscreteDistribution_nums_def)
  with p have "Probability (DiscreteDistribution_nums [4, 4, 4, 4]) [0, 1, 2, 3]
          = Some (\<Prod>i<Dimensionality (DiscreteDistribution_nums [4, 4, 4, 4]).
                    probabilities (DiscreteDistribution_nums [4, 4, 4, 4]) ! i ! ([0, 1, 2, 3] ! i))"
    by blast
  also have "\<dots> = Some (1 / 256)"
    by (simp add: Dimensionality_def DiscreteDistribution_nums_def lessThan_4
          numeral_2_eq_2 numeral_3_eq_3)
  finally have v: "Probability (DiscreteDistribution_nums [4, 4, 4, 4]) [0, 1, 2, 3]
                     = Some (1 / 256)" .
  have g: "list_all valid_probabilities ?pro"
    by (simp add: valid_probabilities_def)
  with p obtain c where c: "DiscreteDistribution_probs ?pro = Some c"
    by blast
  with p have "Dimensionality c = length ?pro"
    "map length (probabilities c) = map length ?pro"
    by blast+
  with c have "\<exists>c. DiscreteDistribution_probs ?pro = Some c
          \<and> Dimensionality c = 3 \<and> map length (probabilities c) = [3, 3, 3]"
    by simp
  with h v g show ?thesis
    by blast
qed

text \<open>
  C8: a distribution constructed with 5 outcomes reports, before any training, the
  probability 0.2 for each of the symbols 0, 1, 2, 3 and 4.
\<close>

theorem Probability_equally_likely:
  "Probability (DiscreteDistribution_num 5) [0] = Some 0.2
   \<and> Probability (DiscreteDistribution_num 5) [1] = Some 0.2
   \<and> Probability (DiscreteDistribution_num 5) [2] = Some 0.2
   \<and> Probability (DiscreteDistribution_num 5) [3] = Some 0.2
   \<and> Probability (DiscreteDistribution_num 5) [4] = Some 0.2"
  by (simp add: Probability_def DiscreteDistribution_num_def)

section \<open>Claims about the multihead attention layer\<close>

lemma project_shape:
  assumes "has_shape W r c" "has_shape b r 1" "has_shape x c n"
  shows "\<exists>y. project W b x = Inr y \<and> has_shape y r n"
  using assms
  by (simp add: project_def then_do_def op_mul_def each_col_plus_def has_shape_def)

lemma attend_shape:
  assumes "is_empty (attnMask L) \<or> has_shape (attnMask L) T S"
    and "is_empty (keyPaddingMask L) \<or> has_shape (keyPaddingMask L) 1 S"
    and "has_shape q d T" "has_shape k d S" "has_shape v d S"
  shows "\<exists>c. attend L q k v = Inr c \<and> has_shape c d T"
  using assms
  by (auto simp: attend_def then_do_def op_mul_def op_t_def op_plus_def each_row_plus_def
        scale_def softmax_rows_def has_shape_def)

lemma head_rows_shape: "has_shape A r c \<Longrightarrow> has_shape (head_rows A h d) d c"
  by (simp add: head_rows_def has_shape_def)

lemma heads_shape:
  assumes "is_empty (attnMask L) \<or> has_shape (attnMask L) T S"
    and "is_empty (keyPaddingMask L) \<or> has_shape (keyPaddingMask L) 1 S"
    and "has_shape q E T" "has_shape k E S" "has_shape v E S"
  shows "0 < h \<Longrightarrow> \<exists>c. heads L q k v h = Inr c \<and> has_shape c (headDim L * h) T"
proof (induction h)
  case 0
  then show ?case by simp
next
  case (Suc h)
  from attend_shape [OF assms(1,2), of "head_rows q h (headDim L)" "headDim L"
      "head_rows k h (headDim L)" "head_rows v h (headDim L)"]
    head_rows_shape [OF assms(3)] head_rows_shape [OF assms(4)] head_rows_shape [OF assms(5)]
  obtain c where c: "attend L (head_rows q h (headDim L)) (head_rows k h (headDim L))
                       (head_rows v h (headDim L)) = Inr c" "has_shape c (headDim L) T"
    by blast
  show ?case
  proof (cases "h = 0")
    case True
    with c show ?thesis
      by (simp add: then_do_def)
  next
    case False
    with Suc.IH obtain a where a: "heads L q k v h = Inr a" "has_shape a (headDim L * h) T"
      by auto
    with c False show ?thesis
      by (simp add: then_do_def join_cols_def has_shape_def)
  qed
qed

lemma Forward_point_shape:
  assumes "wf_attention L"
  shows "\<exists>y. Forward_point L input j = Inr y \<and> has_shape y (embedDim L * tgtSeqLen L) 1"
proof -
  let ?E = "embedDim L" and ?T = "tgtSeqLen L" and ?S = "srcSeqLen L"
  have seg: "has_shape (segment input j f r c) r c" for f r c
    by (simp add: segment_def has_shape_def)
  from assms have wf:
    "0 < numHeads L" "headDim L * numHeads L = ?E"
    "has_shape (queryWt L) ?E ?E" "has_shape (qBias L) ?E 1"
    "has_shape (keyWt L) ?E ?E" "has_shape (kBias L) ?E 1"
    "has_shape (valueWt L) ?E ?E" "has_shape (vBias L) ?E 1"
    "has_shape (outWt L) ?E ?E" "has_shape (outBias L) ?E 1"
    "is_empty (attnMask L) \<or> has_shape (attnMask L) ?T ?S"
    "is_empty (keyPaddingMask L) \<or> has_shape (keyPaddingMask L) 1 ?S"
    by (simp_all add: wf_attention_def)
  from project_shape [OF wf(3,4) seg] obtain q where
    q: "project (queryWt L) (qBias L) (segment input j 0 ?E ?T) = Inr q" "has_shape q ?E ?T"
    by blast
  from project_shape [OF wf(5,6) seg] obtain k where
    k: "project (keyWt L) (kBias L) (segment input j (?E * ?T) ?E ?S) = Inr k" "has_shape k ?E ?S"
    by blast
  from project_shape [OF wf(7,8) seg] obtain v where
    v: "project (valueWt L) (vBias L) (segment input j (?E * (?T + ?S)) ?E ?S) = Inr v"
       "has_shape v ?E ?S"
    by blast
  from heads_shape [OF wf(11,12) q(2) k(2) v(2) wf(1)] wf(2) obtain c where
    c: "heads L q k v (numHeads L) = Inr c" "has_shape c ?E ?T"
    by auto
  from project_shape [OF wf(9,10) c(2)] obtain out where
    out: "project (outWt L) (outBias L) c = Inr out" "has_shape out ?E ?T"
    by blast
  have "Forward_point L input j = Inr (vectorise out)"
    by (simp add: Forward_point_def Let_def then_do_def q k v c out)
  moreover have "has_shape (vectorise out) (?E * ?T) 1"
    using out(2) by (simp add: vectorise_def has_shape_def)
  ultimately show ?thesis
    by blast
qed

lemma Forward_points_shape:
  assumes "wf_attention L" and "has_shape output (embedDim L * tgtSeqLen L) n"
    and "length (mem output) = embedDim L * tgtSeqLen L * n"
  shows "j \<le> n \<Longrightarrow> \<exists>y. Forward_points L input j output = Inr y
           \<and> has_shape y (embedDim L * tgtSeqLen L) n
           \<and> length (mem y) = embedDim L * tgtSeqLen L * n"
proof (induction j)
  case 0
  with assms(2,3) show ?case by simp
next
  case (Suc j)
  then obtain filled where f: "Forward_points L input j output = Inr filled"
    "has_shape filled (embedDim L * tgtSeqLen L) n"
    by auto
  from Forward_point_shape [OF assms(1), of input j] obtain point where
    p: "Forward_point L input j = Inr point" "has_shape point (embedDim L * tgtSeqLen L) 1"
    by blast
  from f p Suc.prems show ?case
    by (simp add: then_do_def col_assign_def has_shape_def)
qed

text \<open>
  C9: on a well-formed layer, for every input block of
  \<open>embedDim * (tgtSeqLen + 2 * srcSeqLen)\<close> rows and one column for each point of the
  batch, \<open>Forward\<close> returns an output of \<open>embedDim * tgtSeqLen\<close> rows and as many columns
  as the input; what it computes for each point is one column of that many entries.
\<close>

theorem MultiheadAttention_Forward_shape:
  assumes "wf_attention L"
    and "n_rows input = embedDim L * (tgtSeqLen L + 2 * srcSeqLen L)"
  shows "\<exists>output. MultiheadAttention_Forward L input = Inr output
           \<and> n_rows output = embedDim L * tgtSeqLen L \<and> n_cols output = n_cols input
           \<and> length (mem output) = embedDim L * tgtSeqLen L * n_cols input
           \<and> (\<forall>j. \<exists>point. Forward_point L input j = Inr point
                 \<and> n_rows point = embedDim L * tgtSeqLen L \<and> n_cols point = 1)"
proof -
  let ?out = "\<lparr>n_rows = embedDim L * tgtSeqLen L, n_cols = n_cols input,
              mem = replicate (embedDim L * tgtSeqLen L * n_cols input) 0\<rparr>"
  have "has_shape ?out (embedDim L * tgtSeqLen L) (n_cols input)"
    "length (mem ?out) = embedDim L * tgtSeqLen L * n_cols input"
    by (simp_all add: has_shape_def)
  from Forward_points_shape [OF assms(1) this, of "n_cols input" input] obtain y where
    "Forward_points L input (n_cols input) ?out = Inr y"
    "has_shape y (embedDim L * tgtSeqLen L) (n_cols input)"
    "length (mem y) = embedDim L * tgtSeqLen L * n_cols input"
    by auto
  moreover have "\<exists>point. Forward_point L input j = Inr point
                 \<and> n_rows point = embedDim L * tgtSeqLen L \<and> n_cols point = 1" for j
    using Forward_point_shape [OF assms(1), of input j] by (simp add: has_shape_def)
  ultimately show ?thesis
    using assms(2) by (simp add: MultiheadAttention_Forward_def has_shape_def)
qed

theorem MultiheadAttention_Forward_shape_witness:
  "wf_attention example_attention
   \<and> n_rows example_block
       = embedDim example_attention
           * (tgtSeqLen example_attention + 2 * srcSeqLen example_attention)
   \<and> (\<exists>output. MultiheadAttention_Forward example_attention example_block = Inr output
         \<and> n_rows output = 20 \<and> n_cols output = 3 \<and> length (mem output) = 60)"
proof -
  have h: "wf_attention example_attention"
    "n_rows example_block
       = embedDim example_attention
           * (tgtSeqLen example_attention + 2 * srcSeqLen example_attention)"
    by (simp_all add: wf_attention_def example_attention_def example_block_def zeros_def
          has_shape_def headDim_def)
  have sz: "embedDim example_attention = 4" "tgtSeqLen example_attention = 5"
    "n_cols example_block = 3"
    by (simp_all add: example_attention_def example_block_def zeros_def)
  from MultiheadAttention_Forward_shape [OF h] h show ?thesis
    by (auto simp: sz)
qed

end
